theory Spec2Isabelle
  imports Complex_Main "HOL-Library.AList"
begin

section \<open>Numbers and containers\<close>

text \<open>
  The program is JavaScript. Its numbers are modelled as exact reals: rounding error and
  overflow of IEEE doubles are outside the model, and so are \<open>NaN\<close> and the infinities,
  except for the two quantities that are not finite on states the program reaches: the
  profit percentage of the position review, which can divide by zero, and the valuation
  of a portfolio on a quote that has no numeric price (both below). An object used as a dictionary is an
  association list in insertion order (the order \<open>Object.keys\<close> and \<open>Object.entries\<close>
  enumerate, for keys that are not array indices): \<open>map_of\<close> reads a key,
  \<open>AList.update\<close> overwrites a key in place or appends a new one at the end,
  \<open>AList.delete\<close> removes it. The portfolio table of the engine is only ever read by
  key, so it is a map.

  The exact reals agree with the doubles of the program where no double overflows and,
  for a statement about exact values, where every intermediate result is a whole number
  below \<open>2^53\<close>. The theorems about sequences of calls, about a round trip and about
  the finite valuation therefore bound the amounts they speak of, and show that the
  amounts stay in range.

  \<open>positions[symbol]\<close> also finds the properties that every object inherits from
  \<open>Object.prototype\<close>; a symbol with such a name is not a key of the association list and
  is outside the model.
\<close>

definition Object_prototype_names :: "string list" where
  "Object_prototype_names =
     [''constructor'', ''__defineGetter__'', ''__defineSetter__'', ''hasOwnProperty'',
      ''__lookupGetter__'', ''__lookupSetter__'', ''isPrototypeOf'', ''propertyIsEnumerable'',
      ''toString'', ''valueOf'', ''__proto__'', ''toLocaleString'']"

type_synonym symbol = string
type_synonym agent_id = string

text \<open>\<open>Math.round\<close>: the nearest integer, a tie going towards plus infinity.\<close>

definition Math_round :: "real \<Rightarrow> real" where
  "Math_round x = of_int \<lfloor>x + 1 / 2\<rfloor>"

section \<open>The trading engine (class TradingEngine)\<close>

record position =
  shares :: real
  avgCost :: real

record snapshot =
  h_timestamp :: string
  h_value :: real

record portfolio =
  cash :: real
  positions :: "(symbol \<times> position) list"
  startingValue :: real
  history :: "snapshot list"

datatype trade_type = BUY | SELL

text \<open>A trade record; \<open>t_pnl\<close> is present on a SELL only.\<close>

record trade =
  t_id :: string
  t_agentId :: agent_id
  t_type :: trade_type
  t_symbol :: symbol
  t_shares :: real
  t_price :: real
  t_total :: real
  t_pnl :: "real option"
  t_timestamp :: string

text \<open>A quote of the market-data collaborator; the engine reads its \<open>price\<close> only.\<close>

record quote =
  price :: real

record engine =
  trades :: "trade list"
  portfolios :: "agent_id \<rightharpoonup> portfolio"

text \<open>
  What a call reads from its environment: the clock (\<open>new Date().toISOString()\<close>) and the
  fresh trade id (built from \<open>Date.now()\<close> and \<open>Math.random()\<close>).
\<close>

record env =
  now :: string
  fresh_id :: string

text \<open>
  The failures an operation returns as \<open>{ success: false, error: ... }\<close>; the messages of
  the source are \<open>error_text\<close>. An exception ends a call: \<open>PortfolioNotFound\<close> is
  \<open>throw new Error('Portfolio not found')\<close>, raised before anything is written;
  \<open>UnknownAgentTemplate\<close> is the \<open>throw\<close> of \<open>createAgent\<close>; \<open>TypeError\<close> is a
  property read on \<open>undefined\<close>.
\<close>

datatype trade_error = InvalidQuantity | InsufficientFunds | InsufficientShares

fun error_text :: "trade_error \<Rightarrow> string" where
  "error_text InvalidQuantity = ''Invalid share amount''"
| "error_text InsufficientFunds = ''Insufficient funds''"
| "error_text InsufficientShares = ''Insufficient shares''"

datatype exn = PortfolioNotFound | UnknownAgentTemplate string | TypeError

datatype result =
    Success trade "real option"
  | Failure trade_error

definition initializePortfolio :: "env \<Rightarrow> engine \<Rightarrow> agent_id \<Rightarrow> real \<Rightarrow> engine" where
  "initializePortfolio e eng aid startingCash =
     (case portfolios eng aid of
        Some _ \<Rightarrow> eng
      | None \<Rightarrow>
          eng\<lparr>portfolios := (portfolios eng)(aid \<mapsto>
            \<lparr>cash = startingCash, positions = [], startingValue = startingCash,
             history = [\<lparr>h_timestamp = now e, h_value = startingCash\<rparr>]\<rparr>)\<rparr>)"


text \<open>
  \<open>executeBuy\<close> divides by \<open>totalShares\<close>, the old share count plus a positive
  quantity. Share counts never become negative (see \<open>executeBuy_shares_nonneg\<close> and
  \<open>executeSell_shares_nonneg\<close>), so the divisor is positive on every state the engine
  reaches; on a divisor of 0 JavaScript gives a non-finite average cost, which the model
  does not represent.
\<close>

definition executeBuy ::
  "env \<Rightarrow> engine \<Rightarrow> agent_id \<Rightarrow> symbol \<Rightarrow> real \<Rightarrow> real \<Rightarrow> exn + (engine \<times> result)" where
  "executeBuy e eng aid smb requested currentPrice =
     (case portfolios eng aid of
        None \<Rightarrow> Inl PortfolioNotFound
      | Some pf \<Rightarrow>
          let n = Math_round (requested * 10000) / 10000 in
          if n \<le> 0 then Inr (eng, Failure InvalidQuantity)
          else
            let cost = n * currentPrice;
                commission = 0
            in
            if cash pf < cost + commission then Inr (eng, Failure InsufficientFunds)
            else
              let cash' = cash pf - (cost + commission);
                  pos = (case map_of (positions pf) smb of
                           None \<Rightarrow> \<lparr>shares = 0, avgCost = 0\<rparr>
                         | Some p \<Rightarrow> p);
                  totalShares = shares pos + n;
                  totalCost = shares pos * avgCost pos + cost;
                  pos' = \<lparr>shares = totalShares, avgCost = totalCost / totalShares\<rparr>;
                  pf' = pf\<lparr>cash := cash', positions := AList.update smb pos' (positions pf)\<rparr>;
                  tr = \<lparr>t_id = fresh_id e, t_agentId = aid, t_type = BUY, t_symbol = smb,
                        t_shares = n, t_price = currentPrice, t_total = cost,
                        t_pnl = None, t_timestamp = now e\<rparr>
              in Inr (eng\<lparr>trades := trades eng @ [tr],
                           portfolios := (portfolios eng)(aid \<mapsto> pf')\<rparr>,
                      Success tr None))"

definition executeSell ::
  "env \<Rightarrow> engine \<Rightarrow> agent_id \<Rightarrow> symbol \<Rightarrow> real \<Rightarrow> real \<Rightarrow> exn + (engine \<times> result)" where
  "executeSell e eng aid smb n currentPrice =
     (case portfolios eng aid of
        None \<Rightarrow> Inl PortfolioNotFound
      | Some pf \<Rightarrow>
          (case map_of (positions pf) smb of
             None \<Rightarrow> Inr (eng, Failure InsufficientShares)
           | Some pos \<Rightarrow>
               if shares pos < n then Inr (eng, Failure InsufficientShares)
               else
                 let proceeds = n * currentPrice;
                     commission = 0;
                     cash' = cash pf + (proceeds - commission);
                     left = shares pos - n;
                     positions' = (if left = 0 then AList.delete smb (positions pf)
                                   else AList.update smb (pos\<lparr>shares := left\<rparr>) (positions pf));
                     costBasis = n * avgCost pos;
                     pnl = proceeds - costBasis;
                     pf' = pf\<lparr>cash := cash', positions := positions'\<rparr>;
                     tr = \<lparr>t_id = fresh_id e, t_agentId = aid, t_type = SELL, t_symbol = smb,
                           t_shares = n, t_price = currentPrice, t_total = proceeds,
                           t_pnl = Some pnl, t_timestamp = now e\<rparr>
                 in Inr (eng\<lparr>trades := trades eng @ [tr],
                              portfolios := (portfolios eng)(aid \<mapsto> pf')\<rparr>,
                         Success tr (Some pnl))))"

text \<open>
  \<open>calculatePortfolioValue\<close> awaits \<open>marketData.getQuote(symbol)\<close> for each position in
  turn, inside \<open>try ... catch\<close>. The collaborator is a lookup that returns a quote or
  throws (\<open>None\<close>); the \<open>catch\<close> branch is the \<open>None\<close> case.
\<close>

definition calculatePortfolioValue ::
  "(symbol \<Rightarrow> quote option) \<Rightarrow> engine \<Rightarrow> agent_id \<Rightarrow> real" where
  "calculatePortfolioValue getQuote eng aid =
     (case portfolios eng aid of
        None \<Rightarrow> 0
      | Some pf \<Rightarrow>
          foldl (\<lambda>totalValue (smb, pos).
                   case getQuote smb of
                     Some q \<Rightarrow> totalValue + shares pos * price q
                   | None \<Rightarrow> totalValue + shares pos * avgCost pos)
                (cash pf) (positions pf))"


text \<open>
  The constructor: \<open>loadTrades\<close> and \<open>loadPortfolios\<close> return \<open>[]\<close> and \<open>{}\<close> when
  there is no data file yet.
\<close>

definition new_engine :: engine where
  "new_engine = \<lparr>trades = [], portfolios = Map.empty\<rparr>"

subsection \<open>Sequences of calls\<close>

text \<open>
  A caller issues buys and sells one after the other on the portfolio of one agent. A
  call that throws leaves the engine as it was.
\<close>

datatype call = Buy env symbol real real | Sell env symbol real real

fun perform :: "engine \<Rightarrow> agent_id \<Rightarrow> call \<Rightarrow> engine" where
  "perform eng aid (Buy e smb n p) =
     (case executeBuy e eng aid smb n p of Inl _ \<Rightarrow> eng | Inr (eng', _) \<Rightarrow> eng')"
| "perform eng aid (Sell e smb n p) =
     (case executeSell e eng aid smb n p of Inl _ \<Rightarrow> eng | Inr (eng', _) \<Rightarrow> eng')"

text \<open>The engine after each call of a sequence, in order.\<close>

fun states_after :: "engine \<Rightarrow> agent_id \<Rightarrow> call list \<Rightarrow> engine list" where
  "states_after eng aid [] = []"
| "states_after eng aid (c # cs) = perform eng aid c # states_after (perform eng aid c) aid cs"

definition sell_proceeds_nonneg :: "call \<Rightarrow> bool" where
  "sell_proceeds_nonneg c = (case c of Buy _ _ _ _ \<Rightarrow> True | Sell _ _ n p \<Rightarrow> 0 \<le> n * p)"

text \<open>The arguments of a call, and the amounts of a portfolio, within a bound.\<close>

definition call_within :: "real \<Rightarrow> call \<Rightarrow> bool" where
  "call_within B c =
     (case c of
        Buy _ _ n p \<Rightarrow> \<bar>n\<bar> \<le> B \<and> \<bar>p\<bar> \<le> B
      | Sell _ _ n p \<Rightarrow> \<bar>n\<bar> \<le> B \<and> \<bar>p\<bar> \<le> B)"

definition call_symbol :: "call \<Rightarrow> symbol" where
  "call_symbol c = (case c of Buy _ smb _ _ \<Rightarrow> smb | Sell _ smb _ _ \<Rightarrow> smb)"

definition amounts_within :: "real \<Rightarrow> real \<Rightarrow> engine \<Rightarrow> agent_id \<Rightarrow> bool" where
  "amounts_within C S eng aid =
     (case portfolios eng aid of
        None \<Rightarrow> False
      | Some pf \<Rightarrow> cash pf \<le> C \<and> list_all (\<lambda>(smb, pos). shares pos \<le> S) (positions pf))"

definition shares_nonneg :: "engine \<Rightarrow> agent_id \<Rightarrow> bool" where
  "shares_nonneg eng aid =
     (case portfolios eng aid of
        None \<Rightarrow> False
      | Some pf \<Rightarrow> list_all (\<lambda>(smb, pos). 0 \<le> shares pos) (positions pf))"

definition cash_nonneg :: "engine \<Rightarrow> agent_id \<Rightarrow> bool" where
  "cash_nonneg eng aid = (case portfolios eng aid of None \<Rightarrow> False | Some pf \<Rightarrow> 0 \<le> cash pf)"

subsection \<open>Reading an outcome\<close>

definition succeeded :: "exn + engine \<times> result \<Rightarrow> bool" where
  "succeeded r = (case r of Inr (_, Success _ _) \<Rightarrow> True | _ \<Rightarrow> False)"

definition pnl_of :: "exn + engine \<times> result \<Rightarrow> real option" where
  "pnl_of r = (case r of Inr (_, Success _ pnl) \<Rightarrow> pnl | _ \<Rightarrow> None)"

definition cash_of :: "engine \<Rightarrow> agent_id \<Rightarrow> real option" where
  "cash_of eng aid = map_option cash (portfolios eng aid)"

definition position_of :: "engine \<Rightarrow> agent_id \<Rightarrow> symbol \<Rightarrow> position option" where
  "position_of eng aid smb =
     (case portfolios eng aid of None \<Rightarrow> None | Some pf \<Rightarrow> map_of (positions pf) smb)"


section \<open>The agent memory (class AgentMemory)\<close>

text \<open>
  A division by zero does not fail in JavaScript: it gives an infinity or \<open>NaN\<close>. The
  profit percentage of a position divides by its average cost, which is 0 after a buy at
  price 0, so this one quantity is modelled with the non-finite values. A comparison
  with \<open>NaN\<close> is false.
\<close>

datatype jsnum = Num real | PosInfinity | NegInfinity | NaN


fun js_scale :: "jsnum \<Rightarrow> real \<Rightarrow> jsnum" where
  "js_scale (Num r) k = Num (r * k)"
| "js_scale PosInfinity k = (if 0 < k then PosInfinity else if k < 0 then NegInfinity else NaN)"
| "js_scale NegInfinity k = (if 0 < k then NegInfinity else if k < 0 then PosInfinity else NaN)"
| "js_scale NaN k = NaN"



fun js_plus :: "jsnum \<Rightarrow> jsnum \<Rightarrow> jsnum" where
  "js_plus (Num a) (Num b) = Num (a + b)"
| "js_plus NaN y = NaN"
| "js_plus x NaN = NaN"
| "js_plus PosInfinity NegInfinity = NaN"
| "js_plus NegInfinity PosInfinity = NaN"
| "js_plus PosInfinity y = PosInfinity"
| "js_plus x PosInfinity = PosInfinity"
| "js_plus NegInfinity y = NegInfinity"
| "js_plus x NegInfinity = NegInfinity"

fun js_finite :: "jsnum \<Rightarrow> bool" where
  "js_finite (Num r) = True"
| "js_finite PosInfinity = False"
| "js_finite NegInfinity = False"
| "js_finite NaN = False"

subsection \<open>The valuation on quotes as they are fetched\<close>

text \<open>
  \<open>fetchYahooQuote\<close> builds the quote that \<open>getQuote\<close> resolves to with
  \<open>price: meta.regularMarketPrice\<close>, a field of the response that it does not check. A
  quote can therefore resolve with a \<open>price\<close> that is \<open>undefined\<close> (\<open>None\<close>) or not
  finite. No exception is raised then: \<open>position.shares * quote.price\<close> converts the price
  to a number, \<open>undefined\<close> to \<open>NaN\<close>, and the \<open>catch\<close> branch is not taken.
  \<open>calculatePortfolioValue_raw\<close> is the function \<open>calculatePortfolioValue\<close> of the engine
  on such quotes; \<open>calculatePortfolioValue\<close> above is the same loop on quotes whose price
  is a number.
\<close>

record raw_quote =
  raw_price :: "jsnum option"

fun ToNumber :: "jsnum option \<Rightarrow> jsnum" where
  "ToNumber None = NaN"
| "ToNumber (Some x) = x"

definition calculatePortfolioValue_raw ::
  "(symbol \<Rightarrow> raw_quote option) \<Rightarrow> engine \<Rightarrow> agent_id \<Rightarrow> jsnum" where
  "calculatePortfolioValue_raw getQuote eng aid =
     (case portfolios eng aid of
        None \<Rightarrow> Num 0
      | Some pf \<Rightarrow>
          foldl (\<lambda>totalValue (smb, pos).
                   case getQuote smb of
                     Some q \<Rightarrow> js_plus totalValue (js_scale (ToNumber (raw_price q)) (shares pos))
                   | None \<Rightarrow> js_plus totalValue (Num (shares pos * avgCost pos)))
                (Num (cash pf)) (positions pf))"

text \<open>A quote whose price is the number \<open>x\<close>.\<close>

definition numeric_quote :: "real \<Rightarrow> raw_quote" where
  "numeric_quote x = \<lparr>raw_price = Some (Num x)\<rparr>"

text \<open>
  The amounts that a valuation reads, within a bound: the cash, and for each position the
  shares, the average cost and the price quoted for its symbol, if any.
\<close>

definition valuation_within :: "real \<Rightarrow> (symbol \<Rightarrow> real option) \<Rightarrow> portfolio \<Rightarrow> bool" where
  "valuation_within B prices pf =
     (\<bar>cash pf\<bar> \<le> B \<and>
      list_all (\<lambda>(smb, pos). \<bar>shares pos\<bar> \<le> B \<and> \<bar>avgCost pos\<bar> \<le> B \<and>
                  (case prices smb of None \<Rightarrow> True | Some x \<Rightarrow> \<bar>x\<bar> \<le> B))
               (positions pf))"

text \<open>
  The database: one list of rows per table, in insertion order. The columns \<open>id\<close>
  (autoincrement) are left out. A column bound to \<open>undefined\<close> is \<open>NULL\<close> (\<open>None\<close>).
\<close>

record outcome_row =
  o_agent_id :: agent_id
  o_symbol :: symbol
  o_action :: string
  o_entry_price :: real
  o_exit_price :: real
  o_pnl :: "real option"
  o_pnl_percent :: jsnum
  o_hold_duration_hours :: "real option"
  o_market_condition :: "string option"
  o_reason :: string
  o_lesson :: string
  o_created_at :: string

record observation_row =
  ob_agent_id :: agent_id
  ob_symbol :: symbol
  ob_observation :: string
  ob_confidence :: real
  ob_validated :: int
  ob_created_at :: string

record belief_row =
  b_agent_id :: agent_id
  b_belief_type :: string
  b_symbol :: symbol
  b_value :: real
  b_note :: string
  b_updated_at :: string

record reflection_row =
  r_agent_id :: agent_id
  r_date :: string
  r_portfolio_value :: real
  r_trades_made :: int
  r_reflection :: string
  r_mood :: string
  r_strategy_adjustment :: "string option"
  r_created_at :: string

record memory_db =
  trade_outcomes :: "outcome_row list"
  market_observations :: "observation_row list"
  agent_beliefs :: "belief_row list"
  daily_reflections :: "reflection_row list"






section \<open>The arena (class AgentManager)\<close>

text \<open>
  The model follows the version of the class that reviews positions in \<open>checkPositions\<close>.
  Characters outside ASCII are written as their UTF-8 bytes.
\<close>

record template =
  name :: string
  personality :: string
  avatar :: string
  color :: string
  strategy :: string
  riskTolerance :: real
  tradeFrequency :: real
  preferredStocks :: "symbol list"
  avoidStocks :: "symbol list"


text \<open>An agent: \<open>{ id, ...template, generation, createdAt, status, kills }\<close>.\<close>

record agent = template +
  a_id :: agent_id
  generation :: nat
  createdAt :: string
  status :: string
  kills :: nat

text \<open>
  A grave keeps the agent and its last figures. The memory summary is a read-only query
  of the database (win rate, best and worst symbols, recent rows); its value is whatever
  the query \<open>getMemorySummary\<close>, a parameter here, returns.
\<close>

record 'm grave =
  g_agent :: agent
  finalValue :: real
  finalReturn :: real
  eliminatedAt :: string
  eliminatedRound :: nat
  memorySummary :: 'm

record eliminated_entry =
  el_name :: string
  el_generation :: nat
  el_finalValue :: real
  el_finalReturn :: real

record competition_rec =
  startDate :: string
  endDate :: string
  c_round :: nat
  c_eliminated :: "eliminated_entry list"

record 'm manager =
  tradingEngine :: engine
  memory :: memory_db
  agents :: "(agent_id \<times> agent) list"
  graveyard :: "'m grave list"
  competition :: competition_rec


text \<open>
  Of \<open>getPerformance\<close> the leaderboard reads \<open>performance?.tradesCount || 0\<close> only: the
  number of trades of the agent, and 0 when the agent has no portfolio.
\<close>

definition getPerformance_tradesCount :: "engine \<Rightarrow> agent_id \<Rightarrow> nat" where
  "getPerformance_tradesCount eng aid =
     (case portfolios eng aid of
        None \<Rightarrow> 0
      | Some _ \<Rightarrow> length (filter (\<lambda>t. t_agentId t = aid) (trades eng)))"

record board_entry =
  lb_id :: agent_id
  lb_name :: string
  lb_avatar :: string
  lb_color :: string
  lb_personality :: string
  currentValue :: real
  totalReturn :: real
  totalReturnPercent :: real
  tradesCount :: nat
  lb_generation :: nat
  lb_rank :: "nat option"
  isElimination :: "bool option"

text \<open>
  \<open>getLeaderboard\<close>. The quotes are looked up while the agents are valued one after the
  other, so the lookup may differ from agent to agent. \<open>Array.prototype.sort\<close> is stable,
  and the comparator \<open>b.currentValue - a.currentValue\<close> orders by descending value:
  that is the stable insertion sort on the negated value. The rank and the danger flag are
  set afterwards (\<open>None\<close> before).
\<close>

definition board_rows ::
  "(agent_id \<Rightarrow> symbol \<Rightarrow> quote option) \<Rightarrow> 'm manager \<Rightarrow> board_entry list" where
  "board_rows gq mgr =
     map (\<lambda>(agentId, ag).
            let v = calculatePortfolioValue (gq agentId) (tradingEngine mgr) agentId
            in \<lparr>lb_id = agentId, lb_name = name ag, lb_avatar = avatar ag, lb_color = color ag,
                lb_personality = personality ag, currentValue = v, totalReturn = v - 25,
                totalReturnPercent = (v - 25) / 25 * 100,
                tradesCount = getPerformance_tradesCount (tradingEngine mgr) agentId,
                lb_generation = generation ag, lb_rank = None, isElimination = None\<rparr>)
         (filter (\<lambda>(agentId, ag). status ag = ''active'') (agents mgr))"

definition getLeaderboard ::
  "(agent_id \<Rightarrow> symbol \<Rightarrow> quote option) \<Rightarrow> 'm manager \<Rightarrow> board_entry list" where
  "getLeaderboard gq mgr =
     (let sorted = sort_key (\<lambda>r. - currentValue r) (board_rows gq mgr)
      in map (\<lambda>(index, r).
                r\<lparr>lb_rank := Some (index + 1),
                  isElimination := Some (int (length sorted) - 2 \<le> int index)\<rparr>)
             (enumerate 0 sorted))"






subsection \<open>The position review\<close>










subsection \<open>The buy step of the growth strategy\<close>




subsection \<open>An arena of three agents\<close>



subsection \<open>A round of the growth agent\<close>







section \<open>Properties of the trading engine\<close>

subsection \<open>Association lists\<close>

lemma set_update_subset: "set (AList.update k v al) \<subseteq> insert (k, v) (set al)"
  by (induction al) auto

lemma set_delete_subset: "set (AList.delete k al) \<subseteq> set al"
  by (auto simp: AList.delete_eq)

lemma list_all_update:
  "list_all P al \<Longrightarrow> P (k, v) \<Longrightarrow> list_all P (AList.update k v al)"
  using set_update_subset [of k v al] by (auto simp: list_all_iff)

lemma list_all_delete: "list_all P al \<Longrightarrow> list_all P (AList.delete k al)"
  using set_delete_subset [of k al] by (auto simp: list_all_iff)

lemma list_all_map_of:
  "list_all P al \<Longrightarrow> map_of al k = Some v \<Longrightarrow> P (k, v)"
  by (auto simp: list_all_iff dest: map_of_SomeD)

subsection \<open>Each call keeps share counts non-negative\<close>

lemma executeBuy_shares_nonneg:
  assumes "shares_nonneg eng aid"
  shows "shares_nonneg (perform eng aid (Buy e smb n p)) aid"
proof -
  obtain pf where pf: "portfolios eng aid = Some pf"
    and al: "list_all (\<lambda>(smb, pos). 0 \<le> shares pos) (positions pf)"
    using assms by (auto simp: shares_nonneg_def split: option.splits)
  have old: "0 \<le> shares pos" if "map_of (positions pf) smb = Some pos" for pos
    using list_all_map_of [OF al that] by simp
  show ?thesis
    using pf al old
    by (auto simp: executeBuy_def shares_nonneg_def Let_def
        intro!: list_all_update split: option.splits)
qed

lemma executeSell_shares_nonneg:
  assumes "shares_nonneg eng aid"
  shows "shares_nonneg (perform eng aid (Sell e smb n p)) aid"
proof -
  obtain pf where pf: "portfolios eng aid = Some pf"
    and al: "list_all (\<lambda>(smb, pos). 0 \<le> shares pos) (positions pf)"
    using assms by (auto simp: shares_nonneg_def split: option.splits)
  show ?thesis
    using pf al
    by (auto simp: executeSell_def shares_nonneg_def Let_def
        intro!: list_all_update list_all_delete split: option.splits)
qed

lemma perform_shares_nonneg:
  "shares_nonneg eng aid \<Longrightarrow> shares_nonneg (perform eng aid c) aid"
  by (cases c) (simp_all only: executeBuy_shares_nonneg executeSell_shares_nonneg)

lemma perform_cash_nonneg:
  assumes "cash_nonneg eng aid" and "sell_proceeds_nonneg c"
  shows "cash_nonneg (perform eng aid c) aid"
proof (cases c)
  case (Buy e smb n p)
  then show ?thesis
    using assms(1)
    by (auto simp: executeBuy_def cash_nonneg_def Let_def split: option.splits)
next
  case (Sell e smb n p)
  then show ?thesis
    using assms
    by (auto simp: executeSell_def cash_nonneg_def sell_proceeds_nonneg_def Let_def
        split: option.splits)
qed

lemma states_after_shares_nonneg:
  "shares_nonneg eng aid \<Longrightarrow> \<forall>eng' \<in> set (states_after eng aid cs). shares_nonneg eng' aid"
proof (induction cs arbitrary: eng)
  case Nil
  then show ?case by simp
next
  case (Cons c cs)
  have "shares_nonneg (perform eng aid c) aid"
    by (rule perform_shares_nonneg [OF Cons.prems])
  with Cons.IH show ?case by simp
qed

lemma states_after_cash_nonneg:
  "cash_nonneg eng aid \<Longrightarrow> list_all sell_proceeds_nonneg cs \<Longrightarrow>
   \<forall>eng' \<in> set (states_after eng aid cs). cash_nonneg eng' aid"
proof (induction cs arbitrary: eng)
  case Nil
  then show ?case by simp
next
  case (Cons c cs)
  from Cons.prems have "cash_nonneg (perform eng aid c) aid"
    by (simp add: perform_cash_nonneg)
  with Cons.IH Cons.prems(2) show ?case by simp
qed

subsection \<open>Successful outcomes\<close>

lemma succeeded_iff: "succeeded r \<longleftrightarrow> (\<exists>eng tr pnl. r = Inr (eng, Success tr pnl))"
proof (cases r)
  case (Inl x)
  then show ?thesis by (simp add: succeeded_def)
next
  case (Inr y)
  obtain eng res where y: "y = (eng, res)" by (cases y)
  show ?thesis using Inr y by (cases res) (simp_all add: succeeded_def)
qed

subsection \<open>How far a call can move the amounts of a portfolio\<close>

lemma Math_round_upper: "Math_round (x * 10000) / 10000 \<le> x + 1"
proof -
  have "of_int \<lfloor>x * 10000 + 1 / 2\<rfloor> \<le> x * 10000 + 1 / 2" by (rule of_int_floor_le)
  then have "Math_round (x * 10000) / 10000 \<le> (x * 10000 + 1 / 2) / 10000"
    by (simp add: Math_round_def divide_right_mono)
  also have "\<dots> \<le> x + 1" by simp
  finally show ?thesis .
qed

lemma abs_mult_le: "\<bar>a\<bar> \<le> A \<Longrightarrow> \<bar>b\<bar> \<le> B \<Longrightarrow> \<bar>a * b\<bar> \<le> A * (B::real)"
  by (simp add: abs_mult mult_mono)

lemma executeBuy_amounts_within:
  assumes w: "amounts_within C S eng aid" and n: "\<bar>n\<bar> \<le> B" and p: "\<bar>p\<bar> \<le> B"
    and S0: "0 \<le> S"
  shows "amounts_within (C + B * (B + 1)) (S + (B + 1)) (perform eng aid (Buy e smb n p)) aid"
proof -
  obtain pf where pf: "portfolios eng aid = Some pf" and c: "cash pf \<le> C"
    and al: "list_all (\<lambda>(smb, pos). shares pos \<le> S) (positions pf)"
    using w by (auto simp: amounts_within_def split: option.splits)
  have B0: "0 \<le> B" using n by simp
  define r where "r = Math_round (n * 10000) / 10000"
  have rB: "r \<le> B + 1" using Math_round_upper [of n] n by (simp add: r_def)
  have al': "list_all (\<lambda>(smb, pos). shares pos \<le> S + (B + 1)) (positions pf)"
    using al B0 by (auto simp: list_all_iff)
  have old: "shares pos \<le> S" if "map_of (positions pf) smb = Some pos" for pos
    using list_all_map_of [OF al that] by simp
  show ?thesis
  proof (cases "0 < r \<and> r * p \<le> cash pf")
    case False
    then have "perform eng aid (Buy e smb n p) = eng"
      using pf by (auto simp: executeBuy_def Let_def r_def)
    moreover have "0 \<le> B * (B + 1)" using B0 by simp
    ultimately show ?thesis
      using pf c al' by (simp add: amounts_within_def)
  next
    case True
    then have "\<bar>r\<bar> \<le> B + 1" using rB by simp
    from abs_mult_le [OF this p] have "\<bar>r * p\<bar> \<le> (B + 1) * B" .
    then have cost: "- (r * p) \<le> B * (B + 1)" by (simp add: mult.commute abs_le_iff)
    show ?thesis
      using pf c al' old True cost rB S0
      by (auto simp: executeBuy_def Let_def r_def [symmetric] amounts_within_def
          intro!: list_all_update split: option.splits)
  qed
qed

lemma executeSell_amounts_within:
  assumes w: "amounts_within C S eng aid" and n: "\<bar>n\<bar> \<le> B" and p: "\<bar>p\<bar> \<le> B"
  shows "amounts_within (C + B * (B + 1)) (S + (B + 1)) (perform eng aid (Sell e smb n p)) aid"
proof -
  obtain pf where pf: "portfolios eng aid = Some pf" and c: "cash pf \<le> C"
    and al: "list_all (\<lambda>(smb, pos). shares pos \<le> S) (positions pf)"
    using w by (auto simp: amounts_within_def split: option.splits)
  have B0: "0 \<le> B" using n by simp
  have al': "list_all (\<lambda>(smb, pos). shares pos \<le> S + (B + 1)) (positions pf)"
    using al B0 by (auto simp: list_all_iff)
  have old: "shares pos \<le> S" if "map_of (positions pf) smb = Some pos" for pos
    using list_all_map_of [OF al that] by simp
  from abs_mult_le [OF n p] have "\<bar>n * p\<bar> \<le> B * B" .
  moreover have "B * B \<le> B * (B + 1)" using B0 by (simp add: algebra_simps)
  ultimately have proceeds: "n * p \<le> B * (B + 1)" by (simp add: abs_le_iff)
  have more: "- n \<le> B + 1" using n by (simp add: abs_le_iff)
  have B1: "0 \<le> B * (B + 1)" using B0 by simp
  show ?thesis
    using pf c al' old proceeds more B1
    by (auto simp: executeSell_def Let_def amounts_within_def
        intro!: list_all_update list_all_delete split: option.splits)
qed

lemma amounts_within_mono:
  "amounts_within C S eng aid \<Longrightarrow> C \<le> C' \<Longrightarrow> S \<le> S' \<Longrightarrow> amounts_within C' S' eng aid"
  by (auto simp: amounts_within_def list_all_iff split: option.splits)

lemma perform_amounts_within:
  assumes "amounts_within C S eng aid" and "call_within B c" and "0 \<le> S"
  shows "amounts_within (C + B * (B + 1)) (S + (B + 1)) (perform eng aid c) aid"
proof (cases c)
  case (Buy e smb n p)
  then show ?thesis
    using assms by (simp only: call_within_def call.case executeBuy_amounts_within)
next
  case (Sell e smb n p)
  then show ?thesis
    using assms by (simp only: call_within_def call.case executeSell_amounts_within)
qed

lemma states_after_amounts_within:
  assumes "amounts_within C S eng aid" and "list_all (call_within B) cs" and "0 \<le> S"
    and "0 \<le> B"
  shows "\<forall>eng' \<in> set (states_after eng aid cs).
           amounts_within (C + real (length cs) * (B * (B + 1)))
                          (S + real (length cs) * (B + 1)) eng' aid"
  using assms(1,2,3)
proof (induction cs arbitrary: eng C S)
  case Nil
  then show ?case by simp
next
  case (Cons c cs)
  let ?d = "B * (B + 1)"
  have d0: "0 \<le> ?d" and b0: "0 \<le> B + 1" using assms(4) by simp_all
  have c: "call_within B c" and rest: "list_all (call_within B) cs"
    using Cons.prems(2) by simp_all
  have first: "amounts_within (C + ?d) (S + (B + 1)) (perform eng aid c) aid"
    by (rule perform_amounts_within [OF Cons.prems(1) c Cons.prems(3)])
  have S1: "0 \<le> S + (B + 1)" using Cons.prems(3) b0 by simp
  have "0 \<le> real (length cs) * ?d" and "0 \<le> real (length cs) * (B + 1)"
    using d0 b0 by (simp_all only: mult_nonneg_nonneg of_nat_0_le_iff)
  moreover have "real (length (c # cs)) * ?d = ?d + real (length cs) * ?d"
    and "real (length (c # cs)) * (B + 1) = (B + 1) + real (length cs) * (B + 1)"
    by (simp_all add: algebra_simps)
  ultimately have le1: "C + ?d \<le> C + real (length (c # cs)) * ?d"
    and le2: "S + (B + 1) \<le> S + real (length (c # cs)) * (B + 1)"
    by linarith+
  have here: "amounts_within (C + real (length (c # cs)) * ?d)
                (S + real (length (c # cs)) * (B + 1)) (perform eng aid c) aid"
    by (rule amounts_within_mono [OF first le1 le2])
  have eq1: "C + ?d + real (length cs) * ?d = C + real (length (c # cs)) * ?d"
    and eq2: "S + (B + 1) + real (length cs) * (B + 1) = S + real (length (c # cs)) * (B + 1)"
    by (simp_all add: algebra_simps)
  from Cons.IH [OF first rest S1]
  have "\<forall>eng' \<in> set (states_after (perform eng aid c) aid cs).
           amounts_within (C + real (length (c # cs)) * ?d)
                          (S + real (length (c # cs)) * (B + 1)) eng' aid"
    by (simp only: eq1 eq2)
  with here show ?case by simp
qed

lemma range_of_amounts:
  assumes "n \<le> (10::nat) ^ 50"
  shows "10 ^ 100 + real n * (10 ^ 100 * (10 ^ 100 + 1)) \<le> (10::real) ^ 300"
    and "10 ^ 100 + real n * (10 ^ 100 + 1) \<le> (10::real) ^ 300"
proof -
  have n: "real n \<le> 10 ^ 50" using assms by (metis of_nat_le_iff of_nat_numeral of_nat_power)
  have "real n * (10 ^ 100 * (10 ^ 100 + 1)) \<le> 10 ^ 50 * (10 ^ 100 * (10 ^ 100 + 1))"
    using n by (intro mult_right_mono) simp_all
  then show "10 ^ 100 + real n * (10 ^ 100 * (10 ^ 100 + 1)) \<le> (10::real) ^ 300" by simp
  have "real n * (10 ^ 100 + 1) \<le> 10 ^ 50 * (10 ^ 100 + 1)"
    using n by (intro mult_right_mono) simp_all
  then show "10 ^ 100 + real n * (10 ^ 100 + 1) \<le> (10::real) ^ 300" by simp
qed

subsection \<open>Whole quantities are not changed by the rounding to 4 decimal places\<close>

lemma Math_round_whole: "s \<in> \<int> \<Longrightarrow> Math_round (s * 10000) / 10000 = s"
proof -
  assume "s \<in> \<int>"
  then obtain k :: int where k: "s = of_int k" by (auto elim: Ints_cases)
  have "\<lfloor>of_int (k * 10000) + (1 / 2 :: real)\<rfloor> = k * 10000" by linarith
  then show ?thesis by (simp add: Math_round_def k)
qed

subsection \<open>The valuation loop as a sum\<close>

lemma foldl_value_sum:
  "foldl (\<lambda>totalValue (smb, pos).
            case gq smb of
              Some q \<Rightarrow> totalValue + shares pos * price q
            | None \<Rightarrow> totalValue + shares pos * avgCost pos) acc ps =
   acc + (\<Sum>(smb, pos) \<leftarrow> ps.
            shares pos * (case gq smb of Some q \<Rightarrow> price q | None \<Rightarrow> avgCost pos))"
  by (induction ps arbitrary: acc) (auto split: option.splits)

lemma foldl_raw_value_sum:
  "foldl (\<lambda>totalValue (smb, pos).
            case map_option numeric_quote (prices smb) of
              Some q \<Rightarrow> js_plus totalValue (js_scale (ToNumber (raw_price q)) (shares pos))
            | None \<Rightarrow> js_plus totalValue (Num (shares pos * avgCost pos))) (Num acc) ps =
   Num (acc + (\<Sum>(smb, pos) \<leftarrow> ps.
                 shares pos * (case prices smb of Some x \<Rightarrow> x | None \<Rightarrow> avgCost pos)))"
  by (induction ps arbitrary: acc)
     (auto simp: numeric_quote_def mult.commute split: option.splits)

lemma value_sum_bound:
  assumes "list_all (\<lambda>(smb, pos). \<bar>shares pos\<bar> \<le> B \<and> \<bar>avgCost pos\<bar> \<le> B \<and>
                       (case prices smb of None \<Rightarrow> True | Some x \<Rightarrow> \<bar>x\<bar> \<le> B)) ps"
  shows "\<bar>\<Sum>(smb, pos) \<leftarrow> ps.
            shares pos * (case prices smb of Some x \<Rightarrow> x | None \<Rightarrow> avgCost pos)\<bar>
         \<le> real (length ps) * (B * B)"
  using assms
proof (induction ps)
  case Nil
  then show ?case by simp
next
  case (Cons a ps)
  obtain smb pos where a: "a = (smb, pos)" by (cases a)
  let ?y = "case prices smb of Some x \<Rightarrow> x | None \<Rightarrow> avgCost pos"
  have s: "\<bar>shares pos\<bar> \<le> B" and y: "\<bar>?y\<bar> \<le> B"
    using Cons.prems a by (auto split: option.splits)
  have one: "\<bar>shares pos * ?y\<bar> \<le> B * B" by (rule abs_mult_le [OF s y])
  have rest: "\<bar>\<Sum>(smb, pos) \<leftarrow> ps.
            shares pos * (case prices smb of Some x \<Rightarrow> x | None \<Rightarrow> avgCost pos)\<bar>
         \<le> real (length ps) * (B * B)"
    using Cons.IH Cons.prems by simp
  have "real (length (a # ps)) * (B * B) = B * B + real (length ps) * (B * B)"
    by (simp add: algebra_simps)
  with one rest show ?case
    unfolding a by (simp only: list.map sum_list.Cons prod.case)
qed

lemma calculatePortfolioValue_raw_numeric:
  "calculatePortfolioValue_raw (\<lambda>smb. map_option (\<lambda>q. numeric_quote (price q)) (gq smb)) eng aid
     = Num (calculatePortfolioValue gq eng aid)"
proof (cases "portfolios eng aid")
  case None
  then show ?thesis by (simp add: calculatePortfolioValue_raw_def calculatePortfolioValue_def)
next
  case (Some pf)
  have *: "(\<lambda>smb. map_option (\<lambda>q. numeric_quote (price q)) (gq smb))
            = (\<lambda>smb. map_option numeric_quote (map_option price (gq smb)))"
    by (simp add: option.map_comp comp_def)
  have "(\<Sum>(smb, pos) \<leftarrow> positions pf.
           shares pos * (case map_option price (gq smb) of Some x \<Rightarrow> x | None \<Rightarrow> avgCost pos))
        = (\<Sum>(smb, pos) \<leftarrow> positions pf.
           shares pos * (case gq smb of Some q \<Rightarrow> price q | None \<Rightarrow> avgCost pos))"
    by (rule arg_cong [where f = sum_list], rule map_cong) (auto split: option.splits)
  then show ?thesis
    by (simp only: calculatePortfolioValue_raw_def calculatePortfolioValue_def * Some
        option.case foldl_raw_value_sum foldl_value_sum)
qed

subsection \<open>A buy followed by a sell of the same quantity at the same price\<close>

lemma buy_then_sell:
  assumes pf: "portfolios eng aid = Some pf"
    and nonneg: "shares_nonneg eng aid"
    and exact: "Math_round (s * 10000) / 10000 = s"
    and buy: "executeBuy e1 eng aid smb s p = Inr (eng1, Success tr1 pnl1)"
  shows "\<exists>eng2 tr2 pnl2.
           executeSell e2 eng1 aid smb s p = Inr (eng2, Success tr2 (Some pnl2)) \<and>
           cash_of eng2 aid = Some (cash pf) \<and>
           ((case map_of (positions pf) smb of None \<Rightarrow> True | Some old \<Rightarrow> avgCost old = p)
              \<longrightarrow> pnl2 = 0)"
proof -
  define old where "old = (case map_of (positions pf) smb of
                             None \<Rightarrow> \<lparr>shares = 0, avgCost = 0\<rparr> | Some q \<Rightarrow> q)"
  have spos: "0 < s" and afford: "s * p \<le> cash pf"
    using buy pf exact by (auto simp: executeBuy_def Let_def split: if_splits)
  have old0: "0 \<le> shares old"
  proof (cases "map_of (positions pf) smb")
    case None
    then show ?thesis by (simp add: old_def)
  next
    case (Some q)
    from nonneg pf have "list_all (\<lambda>(smb, pos). 0 \<le> shares pos) (positions pf)"
      by (simp add: shares_nonneg_def)
    from list_all_map_of [OF this Some] Some show ?thesis by (simp add: old_def)
  qed
  define A where "A = (shares old * avgCost old + s * p) / (shares old + s)"
  let ?bought = "\<lparr>shares = shares old + s, avgCost = A\<rparr>"
  have eng1: "portfolios eng1 aid =
      Some (pf\<lparr>cash := cash pf - s * p, positions := AList.update smb ?bought (positions pf)\<rparr>)"
    using buy pf exact spos afford by (auto simp: executeBuy_def Let_def old_def A_def)
  have held: "map_of (AList.update smb ?bought (positions pf)) smb = Some ?bought"
    by (simp add: AList.update_conv')
  have sell: "\<exists>eng2 tr2.
                executeSell e2 eng1 aid smb s p = Inr (eng2, Success tr2 (Some (s * p - s * A))) \<and>
                cash_of eng2 aid = Some (cash pf)"
    using eng1 held old0 spos by (simp add: executeSell_def Let_def cash_of_def)
  have avg: "A = p"
    if "case map_of (positions pf) smb of None \<Rightarrow> True | Some q \<Rightarrow> avgCost q = p"
  proof (cases "map_of (positions pf) smb")
    case None
    then show ?thesis using spos by (simp add: old_def A_def)
  next
    case (Some q)
    with that have "avgCost old = p" by (simp add: old_def)
    then have "shares old * avgCost old + s * p = p * (shares old + s)"
      by (simp add: algebra_simps)
    moreover have "shares old + s \<noteq> 0" using old0 spos by simp
    ultimately show ?thesis by (simp add: A_def)
  qed
  from sell avg show ?thesis by auto
qed

section \<open>The claims about the trading engine\<close>

text \<open>
  Claim C1, as the code has it. Take a portfolio whose cash and share counts are not
  negative and at most \<open>10^100\<close> (an initialized portfolio with a starting cash in that
  range is one), and a sequence of at most \<open>10^50\<close> calls of \<open>executeBuy\<close> and
  \<open>executeSell\<close> whose shares and price arguments are at most \<open>10^100\<close> in magnitude, and
  whose agent id and symbols are not names of inherited properties. After each call
  every position's share count is non-negative, and cash and share counts are at
  most \<open>10^300\<close>, so neither overflows as a double of the program. The cash is non-negative after
  each call when every \<open>executeSell\<close> of the sequence has non-negative proceeds
  \<open>shares * price\<close>; \<open>executeSell\<close> checks neither the sign of its quantity nor that of
  its price, and a sell with negative proceeds takes cash out.
\<close>

theorem bounded_buy_sell_sequence_invariant:
  assumes "shares_nonneg eng aid" and "cash_nonneg eng aid"
    and "amounts_within (10 ^ 100) (10 ^ 100) eng aid"
    and "list_all (call_within (10 ^ 100)) cs" and "length cs \<le> 10 ^ 50"
    and "aid \<notin> set Object_prototype_names"
    and "list_all (\<lambda>c. call_symbol c \<notin> set Object_prototype_names) cs"
  shows "(\<forall>eng' \<in> set (states_after eng aid cs).
            shares_nonneg eng' aid \<and> amounts_within (10 ^ 300) (10 ^ 300) eng' aid) \<and>
         (list_all sell_proceeds_nonneg cs \<longrightarrow>
            (\<forall>eng' \<in> set (states_after eng aid cs). cash_nonneg eng' aid))"
proof -
  have "\<forall>eng' \<in> set (states_after eng aid cs).
          amounts_within (10 ^ 100 + real (length cs) * (10 ^ 100 * (10 ^ 100 + 1)))
                         (10 ^ 100 + real (length cs) * (10 ^ 100 + 1)) eng' aid"
    by (rule states_after_amounts_within [OF assms(3) assms(4)]) simp_all
  then have "\<forall>eng' \<in> set (states_after eng aid cs). amounts_within (10 ^ 300) (10 ^ 300) eng' aid"
    using range_of_amounts [OF assms(5)] amounts_within_mono by blast
  then show ?thesis
    using assms(1,2) states_after_shares_nonneg states_after_cash_nonneg by blast
qed

theorem bounded_buy_sell_sequence_invariant_witness:
  "shares_nonneg (initializePortfolio \<lparr>now = ''t0'', fresh_id = ''i0''\<rparr> new_engine ''warren'' 25)
     ''warren'' \<and>
   cash_nonneg (initializePortfolio \<lparr>now = ''t0'', fresh_id = ''i0''\<rparr> new_engine ''warren'' 25)
     ''warren'' \<and>
   amounts_within (10 ^ 100) (10 ^ 100)
     (initializePortfolio \<lparr>now = ''t0'', fresh_id = ''i0''\<rparr> new_engine ''warren'' 25) ''warren'' \<and>
   list_all (call_within (10 ^ 100))
     [Buy \<lparr>now = ''t1'', fresh_id = ''i1''\<rparr> ''AAPL'' 1 20,
      Sell \<lparr>now = ''t2'', fresh_id = ''i2''\<rparr> ''AAPL'' 1 25] \<and>
   length [Buy \<lparr>now = ''t1'', fresh_id = ''i1''\<rparr> ''AAPL'' 1 20,
           Sell \<lparr>now = ''t2'', fresh_id = ''i2''\<rparr> ''AAPL'' 1 25] \<le> 10 ^ 50 \<and>
   ''warren'' \<notin> set Object_prototype_names \<and>
   list_all (\<lambda>c. call_symbol c \<notin> set Object_prototype_names)
     [Buy \<lparr>now = ''t1'', fresh_id = ''i1''\<rparr> ''AAPL'' 1 20,
      Sell \<lparr>now = ''t2'', fresh_id = ''i2''\<rparr> ''AAPL'' 1 25] \<and>
   list_all sell_proceeds_nonneg
     [Buy \<lparr>now = ''t1'', fresh_id = ''i1''\<rparr> ''AAPL'' 1 20,
      Sell \<lparr>now = ''t2'', fresh_id = ''i2''\<rparr> ''AAPL'' 1 25] \<and>
   list_all (\<lambda>eng'. shares_nonneg eng' ''warren'' \<and> cash_nonneg eng' ''warren'' \<and>
                    amounts_within (10 ^ 300) (10 ^ 300) eng' ''warren'')
     (states_after
        (initializePortfolio \<lparr>now = ''t0'', fresh_id = ''i0''\<rparr> new_engine ''warren'' 25) ''warren''
        [Buy \<lparr>now = ''t1'', fresh_id = ''i1''\<rparr> ''AAPL'' 1 20,
         Sell \<lparr>now = ''t2'', fresh_id = ''i2''\<rparr> ''AAPL'' 1 25])"
proof -
  let ?eng = "initializePortfolio \<lparr>now = ''t0'', fresh_id = ''i0''\<rparr> new_engine ''warren'' 25"
  let ?cs = "[Buy \<lparr>now = ''t1'', fresh_id = ''i1''\<rparr> ''AAPL'' 1 20,
              Sell \<lparr>now = ''t2'', fresh_id = ''i2''\<rparr> ''AAPL'' 1 25]"
  have s: "shares_nonneg ?eng ''warren''"
    by (simp add: shares_nonneg_def initializePortfolio_def new_engine_def)
  have c: "cash_nonneg ?eng ''warren''"
    by (simp add: cash_nonneg_def initializePortfolio_def new_engine_def)
  have a: "amounts_within (10 ^ 100) (10 ^ 100) ?eng ''warren''"
    by (simp add: amounts_within_def initializePortfolio_def new_engine_def)
  have w: "list_all (call_within (10 ^ 100)) ?cs"
    by (simp add: call_within_def)
  have l: "length ?cs \<le> 10 ^ 50" by simp
  have o: "''warren'' \<notin> set Object_prototype_names"
    by (simp add: Object_prototype_names_def)
  have y: "list_all (\<lambda>c. call_symbol c \<notin> set Object_prototype_names) ?cs"
    by (simp add: call_symbol_def Object_prototype_names_def)
  have p: "list_all sell_proceeds_nonneg ?cs"
    by (simp add: sell_proceeds_nonneg_def)
  from bounded_buy_sell_sequence_invariant [OF s c a w l o y] s c a w l o y p show ?thesis
    by (simp only: list_all_iff) blast
qed

text \<open>
  The claim as the spec words it fails: from the initialized portfolio with 25 in cash,
  buying 1 share at 20 and then selling \<open>-1\<close> share at 20 is accepted and leaves the
  cash at \<open>-15\<close>.
\<close>

theorem negative_sell_drives_cash_negative:
  "cash_of
     (perform
        (perform (initializePortfolio \<lparr>now = ''t0'', fresh_id = ''i0''\<rparr> new_engine ''warren'' 25)
           ''warren'' (Buy \<lparr>now = ''t1'', fresh_id = ''i1''\<rparr> ''AAPL'' 1 20))
        ''warren'' (Sell \<lparr>now = ''t2'', fresh_id = ''i2''\<rparr> ''AAPL'' (- 1) 20))
     ''warren'' = Some (- 15) \<and>
   \<not> cash_nonneg
     (perform
        (perform (initializePortfolio \<lparr>now = ''t0'', fresh_id = ''i0''\<rparr> new_engine ''warren'' 25)
           ''warren'' (Buy \<lparr>now = ''t1'', fresh_id = ''i1''\<rparr> ''AAPL'' 1 20))
        ''warren'' (Sell \<lparr>now = ''t2'', fresh_id = ''i2''\<rparr> ''AAPL'' (- 1) 20))
     ''warren''"
  by (simp add: cash_of_def cash_nonneg_def initializePortfolio_def new_engine_def
      executeBuy_def executeSell_def Math_round_def Let_def)

text \<open>
  Claim C2. An agent without a portfolio is initialized with 25 in cash. Buying 1 share of
  AAPL at 20 succeeds and leaves cash 5 and the single position AAPL with 1 share at
  average cost 20. Selling that share at 25 then succeeds, reports a profit of 5 (in the
  result and in the trade record), leaves cash 30, and the AAPL entry is gone from the
  positions.
\<close>

theorem scenario_buy_then_sell_AAPL:
  assumes "portfolios eng aid = None"
  shows "\<exists>eng1 tr1 eng2 tr2 pf1 pf2.
     executeBuy e1 (initializePortfolio e0 eng aid 25) aid ''AAPL'' 1 20
       = Inr (eng1, Success tr1 None) \<and>
     portfolios eng1 aid = Some pf1 \<and> cash pf1 = 5 \<and>
     positions pf1 = [(''AAPL'', \<lparr>shares = 1, avgCost = 20\<rparr>)] \<and>
     executeSell e2 eng1 aid ''AAPL'' 1 25 = Inr (eng2, Success tr2 (Some 5)) \<and>
     t_type tr2 = SELL \<and> t_pnl tr2 = Some 5 \<and>
     portfolios eng2 aid = Some pf2 \<and> cash pf2 = 30 \<and>
     map_of (positions pf2) ''AAPL'' = None \<and> positions pf2 = []"
  using assms
  by (simp add: initializePortfolio_def executeBuy_def executeSell_def Math_round_def Let_def)

theorem scenario_buy_then_sell_AAPL_witness:
  "portfolios new_engine ''warren'' = None \<and>
   (\<exists>eng1 tr1 eng2 tr2 pf1 pf2.
     executeBuy \<lparr>now = ''t1'', fresh_id = ''i1''\<rparr>
       (initializePortfolio \<lparr>now = ''t0'', fresh_id = ''i0''\<rparr> new_engine ''warren'' 25)
       ''warren'' ''AAPL'' 1 20 = Inr (eng1, Success tr1 None) \<and>
     portfolios eng1 ''warren'' = Some pf1 \<and> cash pf1 = 5 \<and>
     positions pf1 = [(''AAPL'', \<lparr>shares = 1, avgCost = 20\<rparr>)] \<and>
     executeSell \<lparr>now = ''t2'', fresh_id = ''i2''\<rparr> eng1 ''warren'' ''AAPL'' 1 25
       = Inr (eng2, Success tr2 (Some 5)) \<and>
     t_type tr2 = SELL \<and> t_pnl tr2 = Some 5 \<and>
     portfolios eng2 ''warren'' = Some pf2 \<and> cash pf2 = 30 \<and>
     map_of (positions pf2) ''AAPL'' = None \<and> positions pf2 = [])"
proof -
  have h: "portfolios new_engine ''warren'' = None"
    by (simp add: new_engine_def)
  from scenario_buy_then_sell_AAPL [OF h,
      of "\<lparr>now = ''t1'', fresh_id = ''i1''\<rparr>" "\<lparr>now = ''t0'', fresh_id = ''i0''\<rparr>"
         "\<lparr>now = ''t2'', fresh_id = ''i2''\<rparr>"] h
  show ?thesis by blast
qed

text \<open>
  Claim C3. The quantity a buy trades is the requested one rounded to 4 decimal places; it
  is the \<open>shares\<close> of the trade record. When a buy into an existing position succeeds,
  the position afterwards holds the old shares plus the traded shares, at the average cost
  \<open>(oldShares * oldAvgCost + shares * price) / (oldShares + shares)\<close>. In particular,
  in a portfolio with at least 300 in cash and no position in the symbol, buying 10 shares
  at 10 and then 10 shares at 20 gives a position of 20 shares at average cost 15.
\<close>

theorem executeBuy_weighted_average:
  "(position_of eng aid smb = Some old \<and> succeeded (executeBuy e eng aid smb requested p) \<longrightarrow>
      position_of (perform eng aid (Buy e smb requested p)) aid smb =
        Some \<lparr>shares = shares old + Math_round (requested * 10000) / 10000,
              avgCost = (shares old * avgCost old + Math_round (requested * 10000) / 10000 * p)
                        / (shares old + Math_round (requested * 10000) / 10000)\<rparr>) \<and>
   (cash_of eng aid = Some c \<and> 300 \<le> c \<and> position_of eng aid smb = None \<longrightarrow>
      succeeded (executeBuy ea eng aid smb 10 10) \<and>
      succeeded (executeBuy eb (perform eng aid (Buy ea smb 10 10)) aid smb 10 20) \<and>
      position_of (perform (perform eng aid (Buy ea smb 10 10)) aid (Buy eb smb 10 20)) aid smb =
        Some \<lparr>shares = 20, avgCost = 15\<rparr>)"
  by (auto simp: executeBuy_def Math_round_def Let_def AList.update_conv' position_of_def
      succeeded_def cash_of_def split: if_splits option.splits)

theorem executeBuy_weighted_average_witness:
  "position_of
     \<lparr>trades = [], portfolios = [''warren'' \<mapsto>
        \<lparr>cash = 1000, positions = [(''AAPL'', \<lparr>shares = 10, avgCost = 10\<rparr>)],
         startingValue = 1000, history = []\<rparr>]\<rparr> ''warren'' ''AAPL''
     = Some \<lparr>shares = 10, avgCost = 10\<rparr> \<and>
   succeeded (executeBuy \<lparr>now = ''t1'', fresh_id = ''i1''\<rparr>
     \<lparr>trades = [], portfolios = [''warren'' \<mapsto>
        \<lparr>cash = 1000, positions = [(''AAPL'', \<lparr>shares = 10, avgCost = 10\<rparr>)],
         startingValue = 1000, history = []\<rparr>]\<rparr> ''warren'' ''AAPL'' 10 20) \<and>
   position_of (perform
     \<lparr>trades = [], portfolios = [''warren'' \<mapsto>
        \<lparr>cash = 1000, positions = [(''AAPL'', \<lparr>shares = 10, avgCost = 10\<rparr>)],
         startingValue = 1000, history = []\<rparr>]\<rparr> ''warren''
     (Buy \<lparr>now = ''t1'', fresh_id = ''i1''\<rparr> ''AAPL'' 10 20)) ''warren'' ''AAPL''
     = Some \<lparr>shares = 20, avgCost = 15\<rparr> \<and>
   cash_of (initializePortfolio \<lparr>now = ''t0'', fresh_id = ''i0''\<rparr> new_engine ''warren'' 300)
     ''warren'' = Some 300 \<and>
   position_of (initializePortfolio \<lparr>now = ''t0'', fresh_id = ''i0''\<rparr> new_engine ''warren'' 300)
     ''warren'' ''AAPL'' = None \<and>
   position_of
     (perform
        (perform (initializePortfolio \<lparr>now = ''t0'', fresh_id = ''i0''\<rparr> new_engine ''warren'' 300)
           ''warren'' (Buy \<lparr>now = ''t1'', fresh_id = ''i1''\<rparr> ''AAPL'' 10 10))
        ''warren'' (Buy \<lparr>now = ''t2'', fresh_id = ''i2''\<rparr> ''AAPL'' 10 20))
     ''warren'' ''AAPL'' = Some \<lparr>shares = 20, avgCost = 15\<rparr>"
proof -
  let ?eng = "\<lparr>trades = [], portfolios = [''warren'' \<mapsto>
        \<lparr>cash = 1000, positions = [(''AAPL'', \<lparr>shares = 10, avgCost = 10\<rparr>)],
         startingValue = 1000, history = []\<rparr>]\<rparr>"
  let ?ea = "\<lparr>now = ''t1'', fresh_id = ''i1''\<rparr>"
  let ?eb = "\<lparr>now = ''t2'', fresh_id = ''i2''\<rparr>"
  let ?fresh = "initializePortfolio \<lparr>now = ''t0'', fresh_id = ''i0''\<rparr> new_engine ''warren'' 300"
  have a: "position_of ?eng ''warren'' ''AAPL'' = Some \<lparr>shares = 10, avgCost = 10\<rparr>"
    by (simp add: position_of_def)
  have b: "succeeded (executeBuy ?ea ?eng ''warren'' ''AAPL'' 10 20)"
    by (simp add: succeeded_def executeBuy_def Math_round_def Let_def)
  have c: "cash_of ?fresh ''warren'' = Some 300"
    by (simp add: cash_of_def initializePortfolio_def new_engine_def)
  have d: "position_of ?fresh ''warren'' ''AAPL'' = None"
    by (simp add: position_of_def initializePortfolio_def new_engine_def)
  have r: "Math_round (10 * 10000) / 10000 = 10"
    by (simp add: Math_round_def)
  from executeBuy_weighted_average
         [where eng = ?eng and aid = "''warren''" and smb = "''AAPL''"
            and old = "\<lparr>shares = 10, avgCost = 10\<rparr>" and e = ?ea
            and requested = 10 and p = 20]
       a b r
  have first: "position_of (perform ?eng ''warren'' (Buy ?ea ''AAPL'' 10 20)) ''warren'' ''AAPL''
                 = Some \<lparr>shares = 20, avgCost = 15\<rparr>"
    by simp
  from executeBuy_weighted_average
         [where eng = ?fresh and aid = "''warren''" and smb = "''AAPL''" and c = 300
            and ea = ?ea and eb = ?eb]
       c d
  have second: "position_of (perform (perform ?fresh ''warren'' (Buy ?ea ''AAPL'' 10 10))
                   ''warren'' (Buy ?eb ''AAPL'' 10 20)) ''warren'' ''AAPL''
                 = Some \<lparr>shares = 20, avgCost = 15\<rparr>"
    by simp
  from a b c d first second show ?thesis by (simp only: simp_thms)
qed

text \<open>
  Claim C4. On an existing portfolio, with \<open>n\<close> the requested shares rounded to 4 decimal
  places: \<open>executeBuy\<close> returns the invalid-quantity failure when \<open>n \<le> 0\<close>; otherwise it
  returns the insufficient-funds failure when \<open>n * price\<close> exceeds the cash (the commission
  is 0); otherwise it succeeds. The quantity is checked first. With a non-negative cash and
  price the two failure conditions exclude each other, and the insufficient-funds failure
  is returned whenever \<open>n * price\<close> exceeds the cash. A failure returns the engine as it
  was.
\<close>

theorem executeBuy_outcomes:
  assumes "portfolios eng aid = Some pf"
  shows "(Math_round (requested * 10000) / 10000 \<le> 0 \<longrightarrow>
            executeBuy e eng aid smb requested p = Inr (eng, Failure InvalidQuantity)) \<and>
         (0 < Math_round (requested * 10000) / 10000 \<and>
          cash pf < Math_round (requested * 10000) / 10000 * p \<longrightarrow>
            executeBuy e eng aid smb requested p = Inr (eng, Failure InsufficientFunds)) \<and>
         (0 \<le> cash pf \<and> 0 \<le> p \<and> cash pf < Math_round (requested * 10000) / 10000 * p \<longrightarrow>
            executeBuy e eng aid smb requested p = Inr (eng, Failure InsufficientFunds)) \<and>
         (0 < Math_round (requested * 10000) / 10000 \<and>
          Math_round (requested * 10000) / 10000 * p \<le> cash pf \<longrightarrow>
            succeeded (executeBuy e eng aid smb requested p))"
proof -
  let ?n = "Math_round (requested * 10000) / 10000"
  have excl: "0 < ?n" if "0 \<le> cash pf" "0 \<le> p" "cash pf < ?n * p"
  proof (rule ccontr)
    assume "\<not> 0 < ?n"
    then have "?n * p \<le> 0" using that(2) by (simp add: mult_nonpos_nonneg)
    with that show False by simp
  qed
  show ?thesis
    using assms excl by (auto simp: executeBuy_def succeeded_def Let_def)
qed

theorem executeBuy_outcomes_witness:
  "portfolios (initializePortfolio \<lparr>now = ''t0'', fresh_id = ''i0''\<rparr> new_engine ''warren'' 25)
     ''warren''
     = Some \<lparr>cash = 25, positions = [], startingValue = 25,
             history = [\<lparr>h_timestamp = ''t0'', h_value = 25\<rparr>]\<rparr> \<and>
   Math_round (4 / 100000 * 10000) / 10000 \<le> 0 \<and>
   executeBuy \<lparr>now = ''t1'', fresh_id = ''i1''\<rparr>
     (initializePortfolio \<lparr>now = ''t0'', fresh_id = ''i0''\<rparr> new_engine ''warren'' 25)
     ''warren'' ''AAPL'' (4 / 100000) 20
     = Inr (initializePortfolio \<lparr>now = ''t0'', fresh_id = ''i0''\<rparr> new_engine ''warren'' 25,
            Failure InvalidQuantity) \<and>
   0 < Math_round (2 * 10000) / 10000 \<and> (25::real) < Math_round (2 * 10000) / 10000 * 20 \<and>
   executeBuy \<lparr>now = ''t1'', fresh_id = ''i1''\<rparr>
     (initializePortfolio \<lparr>now = ''t0'', fresh_id = ''i0''\<rparr> new_engine ''warren'' 25)
     ''warren'' ''AAPL'' 2 20
     = Inr (initializePortfolio \<lparr>now = ''t0'', fresh_id = ''i0''\<rparr> new_engine ''warren'' 25,
            Failure InsufficientFunds) \<and>
   Math_round (1 * 10000) / 10000 * 20 \<le> (25::real) \<and>
   succeeded (executeBuy \<lparr>now = ''t1'', fresh_id = ''i1''\<rparr>
     (initializePortfolio \<lparr>now = ''t0'', fresh_id = ''i0''\<rparr> new_engine ''warren'' 25)
     ''warren'' ''AAPL'' 1 20)"
proof -
  let ?eng = "initializePortfolio \<lparr>now = ''t0'', fresh_id = ''i0''\<rparr> new_engine ''warren'' 25"
  let ?pf = "\<lparr>cash = 25, positions = [], startingValue = 25,
              history = [\<lparr>h_timestamp = ''t0'', h_value = 25\<rparr>]\<rparr>"
  let ?e = "\<lparr>now = ''t1'', fresh_id = ''i1''\<rparr>"
  have h: "portfolios ?eng ''warren'' = Some ?pf"
    by (simp add: initializePortfolio_def new_engine_def)
  have r0: "Math_round (4 / 100000 * 10000) / 10000 = 0"
    and r2: "Math_round (2 * 10000) / 10000 = 2"
    and r1: "Math_round (1 * 10000) / 10000 = 1"
    by (simp_all add: Math_round_def)
  from executeBuy_outcomes [OF h, where requested = "4 / 100000" and e = ?e
                               and smb = "''AAPL''" and p = 20] r0
  have a: "executeBuy ?e ?eng ''warren'' ''AAPL'' (4 / 100000) 20
             = Inr (?eng, Failure InvalidQuantity)"
    by simp
  from executeBuy_outcomes [OF h, where requested = 2 and e = ?e
                               and smb = "''AAPL''" and p = 20] r2
  have b: "executeBuy ?e ?eng ''warren'' ''AAPL'' 2 20 = Inr (?eng, Failure InsufficientFunds)"
    by simp
  from executeBuy_outcomes [OF h, where requested = 1 and e = ?e
                               and smb = "''AAPL''" and p = 20] r1
  have c: "succeeded (executeBuy ?e ?eng ''warren'' ''AAPL'' 1 20)"
    by simp
  from h a b c r0 r1 r2 show ?thesis by simp
qed

text \<open>
  Claim C5. When \<open>executeBuy\<close> or \<open>executeSell\<close> returns a failure (invalid quantity,
  insufficient funds, insufficient shares), the engine it returns is the engine it was
  given: the portfolios (cash, positions, history) and the trade list are as before.
\<close>

theorem failed_trade_leaves_engine_unchanged:
  "(executeBuy e eng aid smb n p = Inr (eng', Failure err) \<longrightarrow> eng' = eng) \<and>
   (executeSell e eng aid smb n p = Inr (eng'', Failure err') \<longrightarrow> eng'' = eng)"
  by (auto simp: executeBuy_def executeSell_def Let_def split: option.splits if_splits)

theorem failed_trade_leaves_engine_unchanged_witness:
  "executeBuy \<lparr>now = ''t1'', fresh_id = ''i1''\<rparr>
     (initializePortfolio \<lparr>now = ''t0'', fresh_id = ''i0''\<rparr> new_engine ''warren'' 25)
     ''warren'' ''AAPL'' 2 20
     = Inr (initializePortfolio \<lparr>now = ''t0'', fresh_id = ''i0''\<rparr> new_engine ''warren'' 25,
            Failure InsufficientFunds) \<and>
   executeSell \<lparr>now = ''t1'', fresh_id = ''i1''\<rparr>
     (initializePortfolio \<lparr>now = ''t0'', fresh_id = ''i0''\<rparr> new_engine ''warren'' 25)
     ''warren'' ''AAPL'' 1 20
     = Inr (initializePortfolio \<lparr>now = ''t0'', fresh_id = ''i0''\<rparr> new_engine ''warren'' 25,
            Failure InsufficientShares)"
proof -
  let ?eng = "initializePortfolio \<lparr>now = ''t0'', fresh_id = ''i0''\<rparr> new_engine ''warren'' 25"
  let ?e = "\<lparr>now = ''t1'', fresh_id = ''i1''\<rparr>"
  obtain x where x: "executeBuy ?e ?eng ''warren'' ''AAPL'' 2 20 = Inr (x, Failure InsufficientFunds)"
    by (simp add: executeBuy_def initializePortfolio_def new_engine_def Math_round_def Let_def)
  obtain y where y: "executeSell ?e ?eng ''warren'' ''AAPL'' 1 20 = Inr (y, Failure InsufficientShares)"
    by (simp add: executeSell_def initializePortfolio_def new_engine_def Let_def)
  from failed_trade_leaves_engine_unchanged
         [where e = ?e and eng = ?eng and aid = "''warren''" and smb = "''AAPL''" and n = 2
            and p = 20 and eng' = x and err = InsufficientFunds] x
  have "x = ?eng" by simp
  moreover
  from failed_trade_leaves_engine_unchanged
         [where e = ?e and eng = ?eng and aid = "''warren''" and smb = "''AAPL''" and n = 1
            and p = 20 and eng'' = y and err' = InsufficientShares] y
  have "y = ?eng" by simp
  ultimately show ?thesis using x y by simp
qed

text \<open>
  Claim C6, as the code has it. Take a portfolio whose share counts are not negative and
  whose cash is a whole number of at most \<open>10^11\<close>, a quantity \<open>s > 0\<close> and a price
  \<open>p > 0\<close> that are whole numbers, and an agent id and a symbol that are not names of
  inherited properties. After a successful \<open>executeBuy\<close> of \<open>s\<close> shares of the symbol at
  price \<open>p\<close>, the \<open>executeSell\<close> of \<open>s\<close> shares at \<open>p\<close> succeeds and puts the cash back
  to its value before the buy; the sell reports a profit of 0 when the symbol was not
  held before the buy. Every product, sum and difference on the way is then a whole
  number below \<open>2^53\<close>, which the doubles of the program compute exactly.
\<close>

theorem round_trip_whole_amounts:
  assumes "shares_nonneg eng aid"
    and "cash_of eng aid = Some c" and "c \<in> \<int>" and "c \<le> 10 ^ 11"
    and "s \<in> \<int>" and "p \<in> \<int>" and "0 < s" and "0 < p"
    and "aid \<notin> set Object_prototype_names" and "smb \<notin> set Object_prototype_names"
    and "succeeded (executeBuy ea eng aid smb s p)"
  shows "succeeded (executeSell eb (perform eng aid (Buy ea smb s p)) aid smb s p) \<and>
         cash_of (perform (perform eng aid (Buy ea smb s p)) aid (Sell eb smb s p)) aid = Some c \<and>
         (position_of eng aid smb = None \<longrightarrow>
            pnl_of (executeSell eb (perform eng aid (Buy ea smb s p)) aid smb s p) = Some 0)"
proof -
  obtain pf where pf: "portfolios eng aid = Some pf"
    using assms(1) by (auto simp: shares_nonneg_def split: option.splits)
  have c: "cash pf = c" using assms(2) pf by (simp add: cash_of_def)
  obtain eng1 tr1 pnl1 where buy: "executeBuy ea eng aid smb s p = Inr (eng1, Success tr1 pnl1)"
    using assms(11) by (auto simp: succeeded_iff)
  from buy_then_sell [OF pf assms(1) Math_round_whole [OF assms(5)] buy, of eb]
  obtain eng2 tr2 pnl2 where
    sell: "executeSell eb eng1 aid smb s p = Inr (eng2, Success tr2 (Some pnl2))"
    and cash: "cash_of eng2 aid = Some (cash pf)"
    and zero: "(case map_of (positions pf) smb of None \<Rightarrow> True | Some old \<Rightarrow> avgCost old = p)
                 \<longrightarrow> pnl2 = 0"
    by blast
  have cond: "case map_of (positions pf) smb of None \<Rightarrow> True | Some old \<Rightarrow> avgCost old = p"
    if "position_of eng aid smb = None"
    using that pf by (auto simp: position_of_def split: option.splits)
  show ?thesis
    using buy sell cash zero cond pf c
    by (auto simp: succeeded_def pnl_of_def cash_of_def)
qed

theorem round_trip_whole_amounts_witness:
  "shares_nonneg (initializePortfolio \<lparr>now = ''t0'', fresh_id = ''i0''\<rparr> new_engine ''warren'' 25)
     ''warren'' \<and>
   cash_of (initializePortfolio \<lparr>now = ''t0'', fresh_id = ''i0''\<rparr> new_engine ''warren'' 25)
     ''warren'' = Some 25 \<and>
   (25 :: real) \<in> \<int> \<and> (25 :: real) \<le> 10 ^ 11 \<and>
   (1 :: real) \<in> \<int> \<and> (20 :: real) \<in> \<int> \<and> (0 :: real) < 1 \<and> (0 :: real) < 20 \<and>
   ''warren'' \<notin> set Object_prototype_names \<and> ''AAPL'' \<notin> set Object_prototype_names \<and>
   succeeded (executeBuy \<lparr>now = ''t1'', fresh_id = ''i1''\<rparr>
     (initializePortfolio \<lparr>now = ''t0'', fresh_id = ''i0''\<rparr> new_engine ''warren'' 25)
     ''warren'' ''AAPL'' 1 20) \<and>
   position_of (initializePortfolio \<lparr>now = ''t0'', fresh_id = ''i0''\<rparr> new_engine ''warren'' 25)
     ''warren'' ''AAPL'' = None \<and>
   succeeded (executeSell \<lparr>now = ''t2'', fresh_id = ''i2''\<rparr>
     (perform (initializePortfolio \<lparr>now = ''t0'', fresh_id = ''i0''\<rparr> new_engine ''warren'' 25)
        ''warren'' (Buy \<lparr>now = ''t1'', fresh_id = ''i1''\<rparr> ''AAPL'' 1 20))
     ''warren'' ''AAPL'' 1 20) \<and>
   cash_of
     (perform
        (perform (initializePortfolio \<lparr>now = ''t0'', fresh_id = ''i0''\<rparr> new_engine ''warren'' 25)
           ''warren'' (Buy \<lparr>now = ''t1'', fresh_id = ''i1''\<rparr> ''AAPL'' 1 20))
        ''warren'' (Sell \<lparr>now = ''t2'', fresh_id = ''i2''\<rparr> ''AAPL'' 1 20))
     ''warren'' = Some 25 \<and>
   pnl_of (executeSell \<lparr>now = ''t2'', fresh_id = ''i2''\<rparr>
     (perform (initializePortfolio \<lparr>now = ''t0'', fresh_id = ''i0''\<rparr> new_engine ''warren'' 25)
        ''warren'' (Buy \<lparr>now = ''t1'', fresh_id = ''i1''\<rparr> ''AAPL'' 1 20))
     ''warren'' ''AAPL'' 1 20) = Some 0"
proof -
  let ?eng = "initializePortfolio \<lparr>now = ''t0'', fresh_id = ''i0''\<rparr> new_engine ''warren'' 25"
  let ?ea = "\<lparr>now = ''t1'', fresh_id = ''i1''\<rparr>"
  let ?eb = "\<lparr>now = ''t2'', fresh_id = ''i2''\<rparr>"
  have a: "shares_nonneg ?eng ''warren''"
    by (simp add: shares_nonneg_def initializePortfolio_def new_engine_def)
  have k: "cash_of ?eng ''warren'' = Some 25"
    by (simp add: cash_of_def initializePortfolio_def new_engine_def)
  have n: "(25 :: real) \<in> \<int>" "(25 :: real) \<le> 10 ^ 11" "(1 :: real) \<in> \<int>" "(20 :: real) \<in> \<int>"
    "(0 :: real) < 1" "(0 :: real) < 20"
    by simp_all
  have o: "''warren'' \<notin> set Object_prototype_names" "''AAPL'' \<notin> set Object_prototype_names"
    by (simp_all add: Object_prototype_names_def)
  have b: "succeeded (executeBuy ?ea ?eng ''warren'' ''AAPL'' 1 20)"
    by (simp add: succeeded_def executeBuy_def initializePortfolio_def new_engine_def
        Math_round_def Let_def)
  have d: "position_of ?eng ''warren'' ''AAPL'' = None"
    by (simp add: position_of_def initializePortfolio_def new_engine_def)
  from round_trip_whole_amounts [OF a k n o b, of ?eb] a k n o b d show ?thesis
    by (simp only: simp_thms)
qed

text \<open>
  The claim as the spec words it fails. A portfolio holds 1 share of AAPL bought at 10 and
  has 90 in cash. Buying 1.00004 shares at 20 succeeds (1 share is traded), and selling
  1.00004 shares at 20 succeeds: the sell reports a profit of 5.0002, not 0, and the cash
  ends at 90.0008, not 90.
\<close>

theorem round_trip_counterexample:
  "cash_of (perform (initializePortfolio \<lparr>now = ''t0'', fresh_id = ''i0''\<rparr> new_engine ''warren'' 100)
              ''warren'' (Buy \<lparr>now = ''t1'', fresh_id = ''i1''\<rparr> ''AAPL'' 1 10)) ''warren''
     = Some 90 \<and>
   succeeded (executeBuy \<lparr>now = ''t2'', fresh_id = ''i2''\<rparr>
      (perform (initializePortfolio \<lparr>now = ''t0'', fresh_id = ''i0''\<rparr> new_engine ''warren'' 100)
              ''warren'' (Buy \<lparr>now = ''t1'', fresh_id = ''i1''\<rparr> ''AAPL'' 1 10))
      ''warren'' ''AAPL'' (100004 / 100000) 20) \<and>
   succeeded (executeSell \<lparr>now = ''t3'', fresh_id = ''i3''\<rparr>
      (perform
         (perform (initializePortfolio \<lparr>now = ''t0'', fresh_id = ''i0''\<rparr> new_engine ''warren'' 100)
            ''warren'' (Buy \<lparr>now = ''t1'', fresh_id = ''i1''\<rparr> ''AAPL'' 1 10))
         ''warren'' (Buy \<lparr>now = ''t2'', fresh_id = ''i2''\<rparr> ''AAPL'' (100004 / 100000) 20))
      ''warren'' ''AAPL'' (100004 / 100000) 20) \<and>
   pnl_of (executeSell \<lparr>now = ''t3'', fresh_id = ''i3''\<rparr>
      (perform
         (perform (initializePortfolio \<lparr>now = ''t0'', fresh_id = ''i0''\<rparr> new_engine ''warren'' 100)
            ''warren'' (Buy \<lparr>now = ''t1'', fresh_id = ''i1''\<rparr> ''AAPL'' 1 10))
         ''warren'' (Buy \<lparr>now = ''t2'', fresh_id = ''i2''\<rparr> ''AAPL'' (100004 / 100000) 20))
      ''warren'' ''AAPL'' (100004 / 100000) 20) = Some (50002 / 10000) \<and>
   cash_of
     (perform
        (perform
           (perform (initializePortfolio \<lparr>now = ''t0'', fresh_id = ''i0''\<rparr> new_engine ''warren'' 100)
              ''warren'' (Buy \<lparr>now = ''t1'', fresh_id = ''i1''\<rparr> ''AAPL'' 1 10))
           ''warren'' (Buy \<lparr>now = ''t2'', fresh_id = ''i2''\<rparr> ''AAPL'' (100004 / 100000) 20))
        ''warren'' (Sell \<lparr>now = ''t3'', fresh_id = ''i3''\<rparr> ''AAPL'' (100004 / 100000) 20))
     ''warren'' = Some (900008 / 10000)"
  by (simp add: cash_of_def succeeded_def pnl_of_def initializePortfolio_def new_engine_def
      executeBuy_def executeSell_def Math_round_def Let_def)

text \<open>
  Claim C7, as the code has it. Take an agent with a portfolio, and lookups that either
  fail or return a quote whose price is a number; let the cash, the shares, the average
  costs and the prices be at most \<open>10^100\<close> in magnitude, and the positions at most
  \<open>10^50\<close>. Then \<open>calculatePortfolioValue\<close> returns a finite total, of at most
  \<open>10^300\<close> in magnitude: the cash plus, for every position, the shares times the price
  of the quote when the lookup returns one, and the shares times the position's average
  cost when the lookup fails. A failed lookup only changes the term of its own position:
  the function has no failing branch.
\<close>

theorem calculatePortfolioValue_finite_sum:
  assumes "portfolios eng aid = Some pf"
    and "valuation_within (10 ^ 100) prices pf"
    and "length (positions pf) \<le> 10 ^ 50"
  shows "\<exists>total.
           calculatePortfolioValue_raw (\<lambda>smb. map_option numeric_quote (prices smb)) eng aid
             = Num total \<and>
           total = cash pf + (\<Sum>(smb, pos) \<leftarrow> positions pf.
                      shares pos * (case prices smb of Some x \<Rightarrow> x | None \<Rightarrow> avgCost pos)) \<and>
           \<bar>total\<bar> \<le> 10 ^ 300"
proof -
  let ?sum = "\<Sum>(smb, pos) \<leftarrow> positions pf.
                shares pos * (case prices smb of Some x \<Rightarrow> x | None \<Rightarrow> avgCost pos)"
  have val: "calculatePortfolioValue_raw (\<lambda>smb. map_option numeric_quote (prices smb)) eng aid
               = Num (cash pf + ?sum)"
    by (simp only: calculatePortfolioValue_raw_def assms(1) option.case foldl_raw_value_sum)
  have c: "\<bar>cash pf\<bar> \<le> 10 ^ 100"
    using assms(2) unfolding valuation_within_def by (rule conjunct1)
  have "\<bar>?sum\<bar> \<le> real (length (positions pf)) * (10 ^ 100 * 10 ^ 100)"
    using assms(2) unfolding valuation_within_def by (intro value_sum_bound) (rule conjunct2)
  moreover have "real (length (positions pf)) \<le> 10 ^ 50"
    using assms(3) by (metis of_nat_le_iff of_nat_numeral of_nat_power)
  then have "real (length (positions pf)) * (10 ^ 100 * 10 ^ 100) \<le> 10 ^ 50 * (10 ^ 100 * 10 ^ 100)"
    by (intro mult_right_mono) simp_all
  ultimately have "\<bar>?sum\<bar> \<le> 10 ^ 250" by simp
  with c have "\<bar>cash pf + ?sum\<bar> \<le> 10 ^ 100 + 10 ^ 250" by linarith
  also have "\<dots> \<le> (10::real) ^ 300" by simp
  finally have "\<bar>cash pf + ?sum\<bar> \<le> 10 ^ 300" .
  with val show ?thesis by blast
qed

theorem calculatePortfolioValue_finite_sum_witness:
  "portfolios
     \<lparr>trades = [], portfolios = [''warren'' \<mapsto>
        \<lparr>cash = 60, positions = [(''AAPL'', \<lparr>shares = 1, avgCost = 20\<rparr>),
                                 (''GME'', \<lparr>shares = 2, avgCost = 10\<rparr>)],
         startingValue = 100, history = []\<rparr>]\<rparr> ''warren''
     = Some \<lparr>cash = 60, positions = [(''AAPL'', \<lparr>shares = 1, avgCost = 20\<rparr>),
                                     (''GME'', \<lparr>shares = 2, avgCost = 10\<rparr>)],
             startingValue = 100, history = []\<rparr> \<and>
   valuation_within (10 ^ 100) (\<lambda>s. if s = ''AAPL'' then Some 25 else None)
     \<lparr>cash = 60, positions = [(''AAPL'', \<lparr>shares = 1, avgCost = 20\<rparr>),
                              (''GME'', \<lparr>shares = 2, avgCost = 10\<rparr>)],
      startingValue = 100, history = []\<rparr> \<and>
   length (positions
     \<lparr>cash = 60, positions = [(''AAPL'', \<lparr>shares = 1, avgCost = 20\<rparr>),
                              (''GME'', \<lparr>shares = 2, avgCost = 10\<rparr>)],
      startingValue = 100, history = []\<rparr>) \<le> 10 ^ 50 \<and>
   calculatePortfolioValue_raw
     (\<lambda>smb. map_option numeric_quote (if smb = ''AAPL'' then Some 25 else None))
     \<lparr>trades = [], portfolios = [''warren'' \<mapsto>
        \<lparr>cash = 60, positions = [(''AAPL'', \<lparr>shares = 1, avgCost = 20\<rparr>),
                                 (''GME'', \<lparr>shares = 2, avgCost = 10\<rparr>)],
         startingValue = 100, history = []\<rparr>]\<rparr> ''warren'' = Num 105"
proof -
  let ?pf = "\<lparr>cash = 60, positions = [(''AAPL'', \<lparr>shares = 1, avgCost = 20\<rparr>),
                                     (''GME'', \<lparr>shares = 2, avgCost = 10\<rparr>)],
              startingValue = 100, history = []\<rparr>"
  let ?eng = "\<lparr>trades = [], portfolios = [''warren'' \<mapsto> ?pf]\<rparr>"
  let ?prices = "\<lambda>s. if s = ''AAPL'' then Some (25::real) else None"
  have h: "portfolios ?eng ''warren'' = Some ?pf" by simp
  have v: "valuation_within (10 ^ 100) ?prices ?pf" by (simp add: valuation_within_def)
  have l: "length (positions ?pf) \<le> 10 ^ 50" by simp
  from calculatePortfolioValue_finite_sum [OF h v l] h v l
  show ?thesis by simp
qed

text \<open>
  The claim as the spec words it fails: the result is not always finite. After buying 1
  share of AAPL at 20 with 25 in cash, a lookup that resolves for AAPL with a quote
  whose \<open>price\<close> is \<open>undefined\<close> raises nothing, so the average cost is not used, and
  the valuation is \<open>NaN\<close>.
\<close>

theorem valuation_of_quote_without_price:
  "succeeded (executeBuy \<lparr>now = ''t1'', fresh_id = ''i1''\<rparr>
     (initializePortfolio \<lparr>now = ''t0'', fresh_id = ''i0''\<rparr> new_engine ''warren'' 25)
     ''warren'' ''AAPL'' 1 20) \<and>
   calculatePortfolioValue_raw
     [''AAPL'' \<mapsto> \<lparr>raw_price = None\<rparr>]
     (perform (initializePortfolio \<lparr>now = ''t0'', fresh_id = ''i0''\<rparr> new_engine ''warren'' 25)
        ''warren'' (Buy \<lparr>now = ''t1'', fresh_id = ''i1''\<rparr> ''AAPL'' 1 20))
     ''warren'' = NaN \<and>
   \<not> js_finite
     (calculatePortfolioValue_raw
        [''AAPL'' \<mapsto> \<lparr>raw_price = None\<rparr>]
        (perform (initializePortfolio \<lparr>now = ''t0'', fresh_id = ''i0''\<rparr> new_engine ''warren'' 25)
           ''warren'' (Buy \<lparr>now = ''t1'', fresh_id = ''i1''\<rparr> ''AAPL'' 1 20))
        ''warren'')"
  by (simp add: succeeded_def calculatePortfolioValue_raw_def initializePortfolio_def
      new_engine_def executeBuy_def Math_round_def Let_def)

text \<open>
  Claim C10. \<open>executeSell\<close> does not validate the quantity. On a position with a positive
  share count: selling 0 shares succeeds, appends a SELL trade of 0 shares with a profit of
  0, and changes nothing else (cash and positions are as before); selling a negative
  quantity \<open>n\<close> succeeds as well, takes \<open>|n| * price\<close> out of the cash and adds \<open>|n|\<close> to
  the share count of the position.
\<close>

theorem executeSell_no_quantity_validation:
  assumes "position_of eng aid smb = Some pos" and "0 < shares pos"
  shows "succeeded (executeSell e eng aid smb 0 p) \<and>
         pnl_of (executeSell e eng aid smb 0 p) = Some 0 \<and>
         perform eng aid (Sell e smb 0 p) =
           eng\<lparr>trades := trades eng @
                 [\<lparr>t_id = fresh_id e, t_agentId = aid, t_type = SELL, t_symbol = smb,
                   t_shares = 0, t_price = p, t_total = 0, t_pnl = Some 0,
                   t_timestamp = now e\<rparr>]\<rparr> \<and>
         (n < 0 \<longrightarrow>
            succeeded (executeSell e eng aid smb n p) \<and>
            cash_of (perform eng aid (Sell e smb n p)) aid
              = map_option (\<lambda>c. c - \<bar>n\<bar> * p) (cash_of eng aid) \<and>
            position_of (perform eng aid (Sell e smb n p)) aid smb
              = Some (pos\<lparr>shares := shares pos + \<bar>n\<bar>\<rparr>) \<and>
            shares pos < shares pos + \<bar>n\<bar>)"
proof -
  obtain pf where pf: "portfolios eng aid = Some pf" and held: "map_of (positions pf) smb = Some pos"
    using assms(1) by (auto simp: position_of_def split: option.splits)
  have triv: "AList.update smb pos (positions pf) = positions pf"
    by (rule AList.update_triv [OF held])
  have same: "(portfolios eng)(aid \<mapsto> pf) = portfolios eng"
    using pf by (simp add: map_upd_triv)
  have zero: "executeSell e eng aid smb 0 p =
      Inr (eng\<lparr>trades := trades eng @
                 [\<lparr>t_id = fresh_id e, t_agentId = aid, t_type = SELL, t_symbol = smb,
                   t_shares = 0, t_price = p, t_total = 0, t_pnl = Some 0,
                   t_timestamp = now e\<rparr>]\<rparr>,
           Success \<lparr>t_id = fresh_id e, t_agentId = aid, t_type = SELL, t_symbol = smb,
                   t_shares = 0, t_price = p, t_total = 0, t_pnl = Some 0,
                   t_timestamp = now e\<rparr> (Some 0))"
    using pf held assms(2) triv same by (simp add: executeSell_def Let_def)
  have neg: "succeeded (executeSell e eng aid smb n p) \<and>
            cash_of (perform eng aid (Sell e smb n p)) aid
              = map_option (\<lambda>c. c - \<bar>n\<bar> * p) (cash_of eng aid) \<and>
            position_of (perform eng aid (Sell e smb n p)) aid smb
              = Some (pos\<lparr>shares := shares pos + \<bar>n\<bar>\<rparr>) \<and>
            shares pos < shares pos + \<bar>n\<bar>" if "n < 0"
    using pf held assms(2) that
    by (simp add: executeSell_def Let_def AList.update_conv' succeeded_def cash_of_def
        position_of_def)
  from zero neg show ?thesis
    by (simp add: succeeded_def pnl_of_def)
qed

theorem executeSell_no_quantity_validation_witness:
  "position_of
     \<lparr>trades = [], portfolios = [''warren'' \<mapsto>
        \<lparr>cash = 5, positions = [(''AAPL'', \<lparr>shares = 1, avgCost = 20\<rparr>)],
         startingValue = 25, history = []\<rparr>]\<rparr> ''warren'' ''AAPL''
     = Some \<lparr>shares = 1, avgCost = 20\<rparr> \<and>
   (0::real) < shares \<lparr>shares = 1, avgCost = 20\<rparr> \<and> (- 2 :: real) < 0 \<and>
   succeeded (executeSell \<lparr>now = ''t1'', fresh_id = ''i1''\<rparr>
     \<lparr>trades = [], portfolios = [''warren'' \<mapsto>
        \<lparr>cash = 5, positions = [(''AAPL'', \<lparr>shares = 1, avgCost = 20\<rparr>)],
         startingValue = 25, history = []\<rparr>]\<rparr> ''warren'' ''AAPL'' 0 20) \<and>
   succeeded (executeSell \<lparr>now = ''t1'', fresh_id = ''i1''\<rparr>
     \<lparr>trades = [], portfolios = [''warren'' \<mapsto>
        \<lparr>cash = 5, positions = [(''AAPL'', \<lparr>shares = 1, avgCost = 20\<rparr>)],
         startingValue = 25, history = []\<rparr>]\<rparr> ''warren'' ''AAPL'' (- 2) 20) \<and>
   cash_of (perform
     \<lparr>trades = [], portfolios = [''warren'' \<mapsto>
        \<lparr>cash = 5, positions = [(''AAPL'', \<lparr>shares = 1, avgCost = 20\<rparr>)],
         startingValue = 25, history = []\<rparr>]\<rparr> ''warren''
     (Sell \<lparr>now = ''t1'', fresh_id = ''i1''\<rparr> ''AAPL'' (- 2) 20)) ''warren'' = Some (- 35) \<and>
   position_of (perform
     \<lparr>trades = [], portfolios = [''warren'' \<mapsto>
        \<lparr>cash = 5, positions = [(''AAPL'', \<lparr>shares = 1, avgCost = 20\<rparr>)],
         startingValue = 25, history = []\<rparr>]\<rparr> ''warren''
     (Sell \<lparr>now = ''t1'', fresh_id = ''i1''\<rparr> ''AAPL'' (- 2) 20)) ''warren'' ''AAPL''
     = Some \<lparr>shares = 3, avgCost = 20\<rparr>"
proof -
  let ?eng = "\<lparr>trades = [], portfolios = [''warren'' \<mapsto>
        \<lparr>cash = 5, positions = [(''AAPL'', \<lparr>shares = 1, avgCost = 20\<rparr>)],
         startingValue = 25, history = []\<rparr>]\<rparr>"
  let ?e = "\<lparr>now = ''t1'', fresh_id = ''i1''\<rparr>"
  have a: "position_of ?eng ''warren'' ''AAPL'' = Some \<lparr>shares = 1, avgCost = 20\<rparr>"
    by (simp add: position_of_def)
  have b: "(0::real) < shares \<lparr>shares = 1, avgCost = 20\<rparr>" by simp
  have k: "cash_of ?eng ''warren'' = Some 5" by (simp add: cash_of_def)
  from executeSell_no_quantity_validation [OF a b, where e = ?e and p = 20 and n = "- 2"] a k
  show ?thesis by simp
qed


section \<open>Properties of the position review\<close>

subsection \<open>The remembered sentiment of other symbols\<close>





subsection \<open>One position, then the loop\<close>




section \<open>The claim about the position review\<close>




section \<open>Properties of the leaderboard and of the elimination\<close>

subsection \<open>The leaderboard\<close>

lemma map_enumerate_ignore:
  "(\<And>i r. h (g (i, r)) = h r) \<Longrightarrow> map h (map g (enumerate n xs)) = map h xs"
  by (induction xs arbitrary: n) auto




lemma getLeaderboard_names:
  "map lb_name (getLeaderboard gq mgr)
     = map lb_name (sort_key (\<lambda>r. - currentValue r) (board_rows gq mgr))"
  unfolding getLeaderboard_def Let_def by (rule map_enumerate_ignore) simp








subsection \<open>The turns of the elimination\<close>




subsection \<open>The leaderboard of the arena of three agents\<close>



section \<open>The claim about the elimination\<close>



end
